theory Spec2Isabelle
  imports Main
begin

section \<open>Shared vocabulary of the screens\<close>

text \<open>
  The screens of the client are Svelte components. Each one owns local variables, timers
  and outstanding calls to the agent (\<^verbatim>\<open>invoke\<close> through the wrappers of
  \<^verbatim>\<open>lib/services.ts\<close>, which await the call and rethrow its error unchanged).
  A screen is modelled as a record of its variables together with what it has registered
  with the runtime: the live timers, the calls not yet answered and the navigation requests
  it has made. Every callback of the source is a function from state to state; an
  \<^verbatim>\<open>async\<close> function is split at its \<^verbatim>\<open>await\<close> into the part that
  issues the call and the parts that run when the call is answered or fails. The event loop
  is a list of events, handled one after the other.

  An agent error is the string the rejected call carries (the pairing screen calls
  \<^verbatim>\<open>error.toLowerCase()\<close> on it).
\<close>

type_synonym agent_error = string

text \<open>\<^verbatim>\<open>goto(url)\<close> and \<^verbatim>\<open>goto(url, { state: { error } })\<close>.\<close>

datatype nav = Goto string "string option"

subsection \<open>The two string operations of the source\<close>

text \<open>
  \<^verbatim>\<open>toLowerCase\<close> on the ASCII letters (a \<open>char\<close> is a byte; letters outside ASCII
  are left as they are) and \<^verbatim>\<open>includes\<close> (here \<open>includes_str\<close>), the search for a contiguous substring.
\<close>

definition lower_char :: "char \<Rightarrow> char" where
  "lower_char c =
     (case map_of (zip ''ABCDEFGHIJKLMNOPQRSTUVWXYZ'' ''abcdefghijklmnopqrstuvwxyz'') c of
        Some l \<Rightarrow> l
      | None \<Rightarrow> c)"

definition toLowerCase :: "string \<Rightarrow> string" where
  "toLowerCase s = map lower_char s"

fun startsWith :: "string \<Rightarrow> string \<Rightarrow> bool" where
  "startsWith s [] = True"
| "startsWith [] (p # ps) = False"
| "startsWith (c # cs) (p # ps) = (c = p \<and> startsWith cs ps)"

fun includes_str :: "string \<Rightarrow> string \<Rightarrow> bool" where
  "includes_str [] sub = startsWith [] sub"
| "includes_str (c # cs) sub = (startsWith (c # cs) sub \<or> includes_str cs sub)"

section \<open>The pairing screen (\<^verbatim>\<open>routes/link-machine/+page.svelte\<close>)\<close>

text \<open>The three \<^verbatim>\<open>setInterval\<close> handles of the screen and their periods in milliseconds.\<close>

datatype interval = Generate_code_process | Provision_code_process | Update_timer

fun period :: "interval \<Rightarrow> nat" where
  "period Generate_code_process = 60000"
| "period Provision_code_process = 20000"
| "period Update_timer = 1000"

text \<open>
  The two agent calls of the screen: \<^verbatim>\<open>generate_code()\<close> and
  \<^verbatim>\<open>provision_by_code(code)\<close>.
\<close>

datatype call = Generate_code | Provision_code string

text \<open>
  The variables of the script, in the order of their declaration, followed by the
  bookkeeping of the runtime: \<open>intervals\<close> are the handles not yet cleared, \<open>invoked\<close>
  logs every agent call in the order of issue (a call's identifier is its position in the
  log), \<open>outstanding\<close> holds the calls not yet answered, \<open>generated\<close> logs the codes
  that successful \<^verbatim>\<open>generate_code\<close> responses delivered, \<open>navigations\<close> logs the
  \<^verbatim>\<open>goto\<close> requests and \<open>destroyed\<close> tells that the component has been torn down.
\<close>

record link_machine =
  provision_code :: string
  is_code_generated :: bool
  is_code_provision :: bool
  error_message :: string
  apiInProgress :: bool
  is_error :: bool
  timeout :: int
  intervals :: "interval set"
  invoked :: "call list"
  outstanding :: "(nat \<times> call) list"
  generated :: "string list"
  navigations :: "nav list"
  destroyed :: bool

text \<open>The state after the script has run: lines 12 to 20 and the three \<^verbatim>\<open>setInterval\<close>.\<close>

definition script_init :: link_machine where
  "script_init =
     \<lparr> provision_code = '' '',
       is_code_generated = False,
       is_code_provision = False,
       error_message = '''',
       apiInProgress = True,
       is_error = False,
       timeout = 60,
       intervals = {Generate_code_process, Provision_code_process, Update_timer},
       invoked = [],
       outstanding = [],
       generated = [],
       navigations = [],
       destroyed = False \<rparr>"

definition invoke :: "call \<Rightarrow> link_machine \<Rightarrow> link_machine" where
  "invoke c s =
     s\<lparr> invoked := invoked s @ [c],
        outstanding := outstanding s @ [(length (invoked s), c)] \<rparr>"

definition answered :: "nat \<Rightarrow> link_machine \<Rightarrow> link_machine" where
  "answered i s = s\<lparr> outstanding := filter (\<lambda>p. fst p \<noteq> i) (outstanding s) \<rparr>"

definition goto :: "string \<Rightarrow> string option \<Rightarrow> link_machine \<Rightarrow> link_machine" where
  "goto url err s = s\<lparr> navigations := navigations s @ [Goto url err] \<rparr>"

definition clearInterval :: "interval \<Rightarrow> link_machine \<Rightarrow> link_machine" where
  "clearInterval i s = s\<lparr> intervals := intervals s - {i} \<rparr>"

subsection \<open>\<^verbatim>\<open>generate_code_req\<close>\<close>

text \<open>Up to the \<^verbatim>\<open>await\<close>: the countdown is reset, the flag is raised, the call is issued.\<close>

definition generate_code_req :: "link_machine \<Rightarrow> link_machine" where
  "generate_code_req s =
     (let s1 = s\<lparr> timeout := 60 \<rparr>;
          s2 = (if \<not> apiInProgress s1 then s1\<lparr> apiInProgress := True \<rparr> else s1)
      in if apiInProgress s2 then invoke Generate_code s2 else s2)"

text \<open>After the \<^verbatim>\<open>await\<close>: the \<^verbatim>\<open>try\<close> branch and the \<^verbatim>\<open>catch\<close> branch.\<close>

definition generate_code_resolved :: "string \<Rightarrow> link_machine \<Rightarrow> link_machine" where
  "generate_code_resolved code s =
     s\<lparr> provision_code := code,
        is_code_generated := True,
        generated := generated s @ [code] \<rparr>"

definition generate_code_rejected :: "agent_error \<Rightarrow> link_machine \<Rightarrow> link_machine" where
  "generate_code_rejected error s =
     s\<lparr> is_error := True, error_message := ''Something went wrong! Try again!'' \<rparr>"

subsection \<open>The handler of \<^verbatim>\<open>provision_code_process\<close>\<close>

definition provision_code_tick :: "link_machine \<Rightarrow> link_machine" where
  "provision_code_tick s =
     (if is_code_generated s then invoke (Provision_code (provision_code s)) s else s)"

definition provision_code_resolved :: "bool \<Rightarrow> link_machine \<Rightarrow> link_machine" where
  "provision_code_resolved success s =
     (let s1 = s\<lparr> is_code_provision := (success = True) \<rparr>;
          s2 = s1\<lparr> apiInProgress := (success = True) \<rparr>
      in if \<not> success
         then s2\<lparr> apiInProgress := False, error_message := ''Incorrect code! Try again!'' \<rparr>
         else s2)"

definition provision_code_rejected :: "agent_error \<Rightarrow> link_machine \<Rightarrow> link_machine" where
  "provision_code_rejected error s =
     (let s1 = s\<lparr> apiInProgress := False \<rparr>
      in if \<not> includes_str (toLowerCase error) ''parse response''
         then s1\<lparr> is_error := True, error_message := ''Something went wrong! Try again!'' \<rparr>
         else s1)"

subsection \<open>The handler of \<^verbatim>\<open>update_timer\<close>\<close>

definition update_timer_tick :: "link_machine \<Rightarrow> link_machine" where
  "update_timer_tick s =
     (if is_code_generated s
      then (let s1 = (if timeout s \<le> 0 then s\<lparr> timeout := 60 \<rparr> else s)
            in s1\<lparr> timeout := timeout s1 - 1 \<rparr>)
      else s)"

subsection \<open>\<^verbatim>\<open>clearIntervalProcess\<close> and the reactive statement\<close>

definition clearIntervalProcess :: "link_machine \<Rightarrow> link_machine" where
  "clearIntervalProcess s =
     clearInterval Update_timer
       (clearInterval Provision_code_process
          (clearInterval Generate_code_process (s\<lparr> apiInProgress := False \<rparr>)))"

text \<open>
  The statement \<^verbatim>\<open>$: if (is_code_provision) ... else if (is_error) ...\<close> of lines 86
  to 92. Svelte runs it again after a callback has changed one of the variables the
  statement reads (\<open>is_code_provision\<close>, \<open>is_error\<close>, \<open>error_message\<close>), and no
  longer once the component is destroyed.
\<close>

definition reactive :: "link_machine \<Rightarrow> link_machine" where
  "reactive s =
     (if is_code_provision s then goto ''/configure-machine'' None (clearIntervalProcess s)
      else if is_error s then goto ''/setup-failed'' (Some (error_message s)) s
      else s)"

definition invalidated :: "link_machine \<Rightarrow> link_machine \<Rightarrow> bool" where
  "invalidated s s' =
     (is_code_provision s' \<noteq> is_code_provision s \<or> is_error s' \<noteq> is_error s
      \<or> error_message s' \<noteq> error_message s)"

definition flush :: "link_machine \<Rightarrow> link_machine \<Rightarrow> link_machine" where
  "flush s s' = (if \<not> destroyed s' \<and> invalidated s s' then reactive s' else s')"

subsection \<open>Events of the screen\<close>

text \<open>
  A firing of one of the three intervals, the answer to an outstanding call (\<open>Inr\<close> the
  data of the response, \<open>Inl\<close> the error), and the teardown of the component, which runs
  the \<^verbatim>\<open>onDestroy\<close> hook. A tick of a cleared interval and an answer to a call that
  is not outstanding do not happen; the model leaves the state as it is.
\<close>

datatype event =
    Tick interval
  | Generate_code_settled nat "agent_error + string"
  | Provision_code_settled nat "agent_error + bool"
  | Destroy

fun callback :: "link_machine \<Rightarrow> event \<Rightarrow> link_machine" where
  "callback s (Tick Generate_code_process) =
     (if Generate_code_process \<in> intervals s then generate_code_req s else s)"
| "callback s (Tick Provision_code_process) =
     (if Provision_code_process \<in> intervals s then provision_code_tick s else s)"
| "callback s (Tick Update_timer) =
     (if Update_timer \<in> intervals s then update_timer_tick s else s)"
| "callback s (Generate_code_settled i r) =
     (case map_of (outstanding s) i of
        Some Generate_code \<Rightarrow>
          (case r of
             Inr code \<Rightarrow> generate_code_resolved code (answered i s)
           | Inl error \<Rightarrow> generate_code_rejected error (answered i s))
      | _ \<Rightarrow> s)"
| "callback s (Provision_code_settled i r) =
     (case map_of (outstanding s) i of
        Some (Provision_code c) \<Rightarrow>
          (case r of
             Inr success \<Rightarrow> provision_code_resolved success (answered i s)
           | Inl error \<Rightarrow> provision_code_rejected error (answered i s))
      | _ \<Rightarrow> s)"
| "callback s Destroy = (clearIntervalProcess s)\<lparr> destroyed := True \<rparr>"

definition dispatch :: "link_machine \<Rightarrow> event \<Rightarrow> link_machine" where
  "dispatch s e = flush s (callback s e)"

text \<open>\<^verbatim>\<open>onMount\<close> calls \<^verbatim>\<open>generate_code_req\<close> once.\<close>

definition mounted :: link_machine where
  "mounted = generate_code_req script_init"

definition run :: "event list \<Rightarrow> link_machine" where
  "run es = foldl dispatch mounted es"

section \<open>The store \<^verbatim>\<open>machineInfo\<close> (\<^verbatim>\<open>lib/stores.ts\<close>)\<close>

text \<open>
  \<^verbatim>\<open>MachineDataType\<close> of \<^verbatim>\<open>interfaces.ts\<close>. The store starts as the empty
  object, so every field can be absent.
\<close>

record machine_data =
  data_id :: "string option"
  data_name :: "string option"
  data_icon :: "string option"

definition empty_store :: machine_data where
  "empty_store = \<lparr> data_id = None, data_name = None, data_icon = None \<rparr>"

section \<open>The identity screen (\<^verbatim>\<open>routes/configure-machine/+page.svelte\<close>)\<close>

datatype 'a promise = Pending | Fulfilled 'a | Rejected string

text \<open>
  The two promises of the script, the call and the two \<^verbatim>\<open>setTimeout\<close> timers that
  are still to come, the promise of \<^verbatim>\<open>Promise.race\<close> once it has been created, the
  store and the navigation requests. The response of \<^verbatim>\<open>get_machine_id\<close> is
  represented by its field \<^verbatim>\<open>machine_id\<close>.
\<close>

record configure_machine =
  get_machine_id_data :: "string promise"
  checkTimeout :: "string promise"
  machine_id_call :: bool
  deadline_timer :: bool
  race_timer :: bool
  race :: "string promise option"
  machineInfo :: machine_data
  cm_navigations :: "nav list"

definition cm_init :: configure_machine where
  "cm_init =
     \<lparr> get_machine_id_data = Pending,
       checkTimeout = Pending,
       machine_id_call = True,
       deadline_timer = True,
       race_timer = True,
       race = None,
       machineInfo = empty_store,
       cm_navigations = [] \<rparr>"

definition cm_goto :: "string \<Rightarrow> string option \<Rightarrow> configure_machine \<Rightarrow> configure_machine" where
  "cm_goto url err s = s\<lparr> cm_navigations := cm_navigations s @ [Goto url err] \<rparr>"

text \<open>The \<^verbatim>\<open>.then\<close> and the \<^verbatim>\<open>.catch\<close> of the race, lines 26 to 39.\<close>

definition race_then :: "string \<Rightarrow> configure_machine \<Rightarrow> configure_machine" where
  "race_then v s = cm_goto ''/setup-success'' None s"

definition race_catch :: "string \<Rightarrow> configure_machine \<Rightarrow> configure_machine" where
  "race_catch error s =
     (if error = ''Timeout'' then cm_goto ''/timeout-service'' None s
      else cm_goto ''/setup-failed'' (Some ''Fetching machine data failed, Please try again'') s)"

text \<open>
  A promise of the race's list settles. The race takes the outcome if it exists and is
  still pending, and runs its handler; a later settlement has no effect on it.
\<close>

definition settle_race :: "string promise \<Rightarrow> configure_machine \<Rightarrow> configure_machine" where
  "settle_race p s =
     (case race s of
        Some Pending \<Rightarrow>
          (case p of
             Pending \<Rightarrow> s
           | Fulfilled v \<Rightarrow> race_then v (s\<lparr> race := Some (Fulfilled v) \<rparr>)
           | Rejected e \<Rightarrow> race_catch e (s\<lparr> race := Some (Rejected e) \<rparr>))
      | _ \<Rightarrow> s)"

text \<open>
  \<^verbatim>\<open>Promise.race([get_machine_id_data, checkTimeout])\<close>: a promise of the list
  that has settled already decides the race at once, the first of the list first.
\<close>

definition promise_race :: "configure_machine \<Rightarrow> configure_machine" where
  "promise_race s =
     (let s1 = s\<lparr> race := Some Pending \<rparr>
      in case get_machine_id_data s of
           Pending \<Rightarrow> settle_race (checkTimeout s) s1
         | p \<Rightarrow> settle_race p s1)"

text \<open>
  The events of the screen: the answer to \<^verbatim>\<open>get_machine_id\<close>, the timer of 3000 ms
  that creates the race and the timer of 15000 ms that rejects \<open>checkTimeout\<close>. The
  script keeps the handle of neither timer and never calls \<^verbatim>\<open>clearTimeout\<close>.
\<close>

datatype cm_event = Machine_id_settled "agent_error + string" | Race_delay_elapsed | Deadline_elapsed

fun cm_step :: "configure_machine \<Rightarrow> cm_event \<Rightarrow> configure_machine" where
  "cm_step s (Machine_id_settled r) =
     (if machine_id_call s then
        (case r of
           Inr machine_id \<Rightarrow>
             settle_race (Fulfilled machine_id)
               (s\<lparr> machine_id_call := False,
                   machineInfo := \<lparr> data_id = Some machine_id, data_name = None, data_icon = None \<rparr>,
                   get_machine_id_data := Fulfilled machine_id \<rparr>)
         | Inl error \<Rightarrow>
             settle_race (Rejected error)
               (s\<lparr> machine_id_call := False, get_machine_id_data := Rejected error \<rparr>))
      else s)"
| "cm_step s Race_delay_elapsed =
     (if race_timer s then promise_race (s\<lparr> race_timer := False \<rparr>) else s)"
| "cm_step s Deadline_elapsed =
     (if deadline_timer s then
        settle_race (Rejected ''Timeout'')
          (s\<lparr> deadline_timer := False, checkTimeout := Rejected ''Timeout'' \<rparr>)
      else s)"

definition cm_run :: "cm_event list \<Rightarrow> configure_machine" where
  "cm_run es = foldl cm_step cm_init es"

text \<open>
  The order of the three events when \<^verbatim>\<open>get_machine_id\<close> is answered \<open>t\<close>
  milliseconds after the screen was entered with the result \<open>r\<close> (\<open>None\<close>: it is never
  answered). The two timers fire in the order of their delays, 3000 ms and 15000 ms. An
  answer that arrives before a timer is due is handled before the timer's callback. An
  answer that arrives at the very millisecond at which a timer is due can be handled before
  or after the timer's callback: the event loop does not fix the order, and
  \<open>answer_first\<close> tells which of the two happens.
\<close>

definition answer_precedes :: "bool \<Rightarrow> nat \<Rightarrow> nat \<Rightarrow> bool" where
  "answer_precedes answer_first t delay = (t < delay \<or> (t = delay \<and> answer_first))"

definition timeline :: "bool \<Rightarrow> (nat \<times> (agent_error + string)) option \<Rightarrow> cm_event list" where
  "timeline answer_first a =
     (case a of
        None \<Rightarrow> [Race_delay_elapsed, Deadline_elapsed]
      | Some (t, r) \<Rightarrow>
          if answer_precedes answer_first t 3000
          then [Machine_id_settled r, Race_delay_elapsed, Deadline_elapsed]
          else if answer_precedes answer_first t 15000
          then [Race_delay_elapsed, Machine_id_settled r, Deadline_elapsed]
          else [Race_delay_elapsed, Deadline_elapsed, Machine_id_settled r])"

section \<open>The connectivity screen (\<^verbatim>\<open>check-internet\<close>)\<close>

text \<open>\<^verbatim>\<open>check_ping_status\<close> of \<^verbatim>\<open>lib/services.ts\<close>: the response, or the error thrown again.\<close>

definition check_ping_status :: "agent_error + string \<Rightarrow> agent_error + string" where
  "check_ping_status r = (case r of Inr response \<Rightarrow> Inr response | Inl error \<Rightarrow> Inl error)"

text \<open>
  The one variable of the script, the \<^verbatim>\<open>setTimeout\<close> of 2000 ms still to come, the
  outstanding call and the navigation requests. The response of \<^verbatim>\<open>get_ping_status\<close>
  is represented by its field \<^verbatim>\<open>code\<close>.
\<close>

record check_internet =
  ci_apiInProgress :: bool
  ci_timer :: bool
  ci_call :: bool
  ci_navigations :: "nav list"

definition ci_init :: check_internet where
  "ci_init = \<lparr> ci_apiInProgress = True, ci_timer = True, ci_call = False, ci_navigations = [] \<rparr>"

definition ci_goto :: "string \<Rightarrow> string option \<Rightarrow> check_internet \<Rightarrow> check_internet" where
  "ci_goto url err s = s\<lparr> ci_navigations := ci_navigations s @ [Goto url err] \<rparr>"

datatype ci_event = Ci_timer_elapsed | Ci_ping_settled "agent_error + string" | Ci_destroy

fun ci_step :: "check_internet \<Rightarrow> ci_event \<Rightarrow> check_internet" where
  "ci_step s Ci_timer_elapsed =
     (if ci_timer s then
        (if ci_apiInProgress s then s\<lparr> ci_timer := False, ci_call := True \<rparr>
         else s\<lparr> ci_timer := False \<rparr>)
      else s)"
| "ci_step s (Ci_ping_settled r) =
     (if ci_call s then
        (case check_ping_status r of
           Inr code \<Rightarrow>
             (if code = ''success''
              then ci_goto ''/link-machine'' None (s\<lparr> ci_call := False, ci_apiInProgress := False \<rparr>)
              else ci_goto ''/no-internet'' None (s\<lparr> ci_call := False, ci_apiInProgress := False \<rparr>))
         | Inl error \<Rightarrow>
             ci_goto ''/setup-failed'' (Some error)
               (s\<lparr> ci_call := False, ci_apiInProgress := False \<rparr>))
      else s)"
| "ci_step s Ci_destroy = s\<lparr> ci_apiInProgress := False \<rparr>"

definition ci_run :: "ci_event list \<Rightarrow> check_internet" where
  "ci_run es = foldl ci_step ci_init es"

section \<open>The machine status screen (\<^verbatim>\<open>routes/machine-info/+page.svelte\<close>)\<close>

text \<open>
  The two \<^verbatim>\<open>setInterval\<close> calls of lines 66 to 72. The script does not keep the
  handles they return, imports no \<^verbatim>\<open>onDestroy\<close> and calls \<^verbatim>\<open>clearInterval\<close>
  nowhere. The variants of the screen differ in the period of the second interval (1200 ms
  here, 7000 ms in the variant stored with the identity screen) and in how the error of the
  health check is shown.
\<close>

datatype mi_interval = Check_active_status_interval | Get_machine_data_interval

fun mi_period :: "mi_interval \<Rightarrow> nat" where
  "mi_period Check_active_status_interval = 10000"
| "mi_period Get_machine_data_interval = 1200"

text \<open>
  The agent calls of the screen: \<^verbatim>\<open>get_ping_status\<close>, and the two calls that
  \<^verbatim>\<open>get_machine_info\<close> of \<^verbatim>\<open>lib/services.ts\<close> makes one after the other, for
  the name and then for the icon; the second is issued with the name's value in hand.
\<close>

datatype mi_call = Get_ping_status | Get_machine_info_name | Get_machine_info_icon string

record machine_info =
  storeData :: machine_data
  machine_id :: "string option"
  machine_name :: string
  machine_icon :: string
  is_active :: bool
  mi_is_error :: bool
  is_loading :: bool
  mi_error_message :: string
  mi_machineInfo :: machine_data
  mi_intervals :: "mi_interval set"
  loading_timer :: bool
  mi_invoked :: "mi_call list"
  mi_outstanding :: "(nat \<times> mi_call) list"
  mi_destroyed :: bool

definition mi_invoke :: "mi_call \<Rightarrow> machine_info \<Rightarrow> machine_info" where
  "mi_invoke c s =
     s\<lparr> mi_invoked := mi_invoked s @ [c],
        mi_outstanding := mi_outstanding s @ [(length (mi_invoked s), c)] \<rparr>"

definition mi_answered :: "nat \<Rightarrow> machine_info \<Rightarrow> machine_info" where
  "mi_answered i s = s\<lparr> mi_outstanding := filter (\<lambda>p. fst p \<noteq> i) (mi_outstanding s) \<rparr>"

text \<open>
  \<^verbatim>\<open>get_machine_data\<close>: the call, and the assignments after \<^verbatim>\<open>get_machine_info\<close>
  has returned the name and the icon. The object it returns has no field \<^verbatim>\<open>id\<close>, so
  \<open>machine_id\<close> becomes undefined. A failure of either call is logged and changes nothing.
\<close>

definition get_machine_data :: "machine_info \<Rightarrow> machine_info" where
  "get_machine_data s = mi_invoke Get_machine_info_name s"

definition get_machine_data_resolved :: "string \<Rightarrow> string \<Rightarrow> machine_info \<Rightarrow> machine_info" where
  "get_machine_data_resolved name icon s =
     s\<lparr> machine_id := None,
        machine_name := (if name = [] then ''My Machine'' else name),
        machine_icon := icon \<rparr>"

text \<open>\<^verbatim>\<open>check_active_status\<close>: the call, its \<^verbatim>\<open>try\<close> branch and its \<^verbatim>\<open>catch\<close> branch.\<close>

definition check_active_status :: "machine_info \<Rightarrow> machine_info" where
  "check_active_status s = mi_invoke Get_ping_status s"

definition check_active_status_settled :: "agent_error + string \<Rightarrow> machine_info \<Rightarrow> machine_info" where
  "check_active_status_settled r s =
     (case check_ping_status r of
        Inr code \<Rightarrow> s\<lparr> is_active := (code = ''success'') \<rparr>
      | Inl error \<Rightarrow>
          s\<lparr> is_active := False,
             mi_is_error := True,
             mi_error_message := ''Machine agent not running or there is no internet connectivity'' \<rparr>)"

text \<open>
  The two reactive statements, lines 37 to 43 and line 64. They run once when the component
  is created and again after a callback has changed a variable they read, as long as the
  component is not destroyed.
\<close>

definition set_machineInfo :: "machine_info \<Rightarrow> machine_info" where
  "set_machineInfo s =
     (if machine_name s = [] \<and> machine_icon s = [] then s
      else s\<lparr> mi_machineInfo :=
                 (storeData s)\<lparr> data_name := Some (machine_name s),
                                data_icon := Some (machine_icon s) \<rparr> \<rparr>)"

definition close_loading :: "machine_info \<Rightarrow> machine_info" where
  "close_loading s = (if mi_is_error s then s\<lparr> is_loading := False \<rparr> else s)"

definition mi_flush :: "machine_info \<Rightarrow> machine_info \<Rightarrow> machine_info" where
  "mi_flush s s' =
     (if mi_destroyed s' then s'
      else
        (let s1 = (if machine_name s' = machine_name s \<and> machine_icon s' = machine_icon s
                   then s' else set_machineInfo s')
         in if mi_is_error s' = mi_is_error s then s1 else close_loading s1))"

datatype mi_event =
    Mi_tick mi_interval
  | Mi_loading_elapsed
  | Mi_ping_settled nat "agent_error + string"
  | Mi_info_settled nat "agent_error + string"
  | Mi_destroy

text \<open>
  The events of the screen: a firing of one of the two intervals, the timer of 3000 ms that
  \<^verbatim>\<open>onMount\<close> sets to close the loading dialog, the answers to the agent calls and
  the teardown of the component. The teardown finds no hook to run: it only marks the
  component as destroyed. Nothing removes an interval from \<open>mi_intervals\<close>. What the
  user does with the two dialogs is not part of the model.
\<close>

fun mi_callback :: "machine_info \<Rightarrow> mi_event \<Rightarrow> machine_info" where
  "mi_callback s (Mi_tick Check_active_status_interval) =
     (if Check_active_status_interval \<in> mi_intervals s then check_active_status s else s)"
| "mi_callback s (Mi_tick Get_machine_data_interval) =
     (if Get_machine_data_interval \<in> mi_intervals s then get_machine_data s else s)"
| "mi_callback s Mi_loading_elapsed =
     (if loading_timer s then s\<lparr> loading_timer := False, is_loading := False \<rparr> else s)"
| "mi_callback s (Mi_ping_settled i r) =
     (case map_of (mi_outstanding s) i of
        Some Get_ping_status \<Rightarrow> check_active_status_settled r (mi_answered i s)
      | _ \<Rightarrow> s)"
| "mi_callback s (Mi_info_settled i r) =
     (case map_of (mi_outstanding s) i of
        Some Get_machine_info_name \<Rightarrow>
          (case r of
             Inr name \<Rightarrow> mi_invoke (Get_machine_info_icon name) (mi_answered i s)
           | Inl error \<Rightarrow> mi_answered i s)
      | Some (Get_machine_info_icon name) \<Rightarrow>
          (case r of
             Inr icon \<Rightarrow> get_machine_data_resolved name icon (mi_answered i s)
           | Inl error \<Rightarrow> mi_answered i s)
      | _ \<Rightarrow> s)"
| "mi_callback s Mi_destroy = s\<lparr> mi_destroyed := True \<rparr>"

definition mi_dispatch :: "machine_info \<Rightarrow> mi_event \<Rightarrow> machine_info" where
  "mi_dispatch s e = mi_flush s (mi_callback s e)"

text \<open>
  The state after the script has run for a given content of the store, with the first run
  of the reactive statements, and the state after \<^verbatim>\<open>onMount\<close>.
\<close>

definition mi_script_init :: "machine_data \<Rightarrow> machine_info" where
  "mi_script_init store =
     close_loading (set_machineInfo
       \<lparr> storeData = store,
         machine_id = Some ''-'',
         machine_name = ''My Machine'',
         machine_icon = [],
         is_active = False,
         mi_is_error = False,
         is_loading = True,
         mi_error_message = [],
         mi_machineInfo = store,
         mi_intervals = {Check_active_status_interval, Get_machine_data_interval},
         loading_timer = False,
         mi_invoked = [],
         mi_outstanding = [],
         mi_destroyed = False \<rparr>)"

definition mi_mounted :: "machine_data \<Rightarrow> machine_info" where
  "mi_mounted store =
     get_machine_data ((check_active_status (mi_script_init store))\<lparr> loading_timer := True \<rparr>)"

definition mi_run :: "machine_data \<Rightarrow> mi_event list \<Rightarrow> machine_info" where
  "mi_run store es = foldl mi_dispatch (mi_mounted store) es"

section \<open>Invariants\<close>

text \<open>
  What the navigation log of the identity screen holds in every reachable state: nothing
  until the race has settled, and afterwards the single request of the handler that ran.
  The race is created by the timer of 3000 ms and not before.
\<close>

definition cm_inv :: "configure_machine \<Rightarrow> bool" where
  "cm_inv s =
     ((race_timer s \<longrightarrow> race s = None) \<and>
      (case race s of
         None \<Rightarrow> cm_navigations s = []
       | Some Pending \<Rightarrow> cm_navigations s = []
       | Some (Fulfilled v) \<Rightarrow> cm_navigations s = [Goto ''/setup-success'' None]
       | Some (Rejected e) \<Rightarrow>
           cm_navigations s =
             [if e = ''Timeout'' then Goto ''/timeout-service'' None
              else Goto ''/setup-failed'' (Some ''Fetching machine data failed, Please try again'')]))"

text \<open>
  Two invariants of the pairing screen. The first ties the codes that are submitted to the
  codes that were generated: every \<^verbatim>\<open>provision_by_code\<close> call carries a code that
  a successful \<^verbatim>\<open>generate_code\<close> response delivered, and once the flag
  \<open>is_code_generated\<close> is set the variable \<open>provision_code\<close> holds the latest of them.
  The second ties the navigation log to the flags that the reactive statement reads.
\<close>

definition codes_inv :: "link_machine \<Rightarrow> bool" where
  "codes_inv s =
     ((\<forall>c. Provision_code c \<in> set (invoked s) \<longrightarrow> c \<in> set (generated s))
      \<and> (is_code_generated s \<longrightarrow> generated s \<noteq> [] \<and> provision_code s = last (generated s)))"

definition nav_inv :: "link_machine \<Rightarrow> bool" where
  "nav_inv s =
     ((is_code_provision s \<longrightarrow> intervals s = {})
      \<and> (destroyed s \<longrightarrow> intervals s = {})
      \<and> (\<not> destroyed s \<and> is_code_provision s \<longrightarrow>
           navigations s \<noteq> [] \<and> last (navigations s) = Goto ''/configure-machine'' None)
      \<and> (\<not> destroyed s \<and> \<not> is_code_provision s \<and> is_error s \<longrightarrow>
           navigations s \<noteq> []
           \<and> last (navigations s) = Goto ''/setup-failed'' (Some (error_message s))))"

section \<open>Properties of the pairing screen\<close>

subsection \<open>The display countdown\<close>

text \<open>
  C8, as stated: the countdown starts at 60, is reset to 60 on every code issuance, ticks
  down once per second while a code is active, and upon reaching zero wraps back to 60.
  The last part fails. After the first code has arrived, sixty ticks of \<open>update_timer\<close>
  bring the countdown to zero; the next tick assigns 60 and subtracts one in the same
  callback, so the value the screen shows after zero is 59, never 60.
\<close>

theorem C8_countdown_wrap_counterexample:
  "timeout (run (Generate_code_settled 0 (Inr ''4821'') # replicate 60 (Tick Update_timer))) = 0
   \<and> timeout (run (Generate_code_settled 0 (Inr ''4821'') # replicate 61 (Tick Update_timer)))
       \<noteq> 60"
  by code_simp

text \<open>
  C8, amended: the countdown starts at 60; every call of \<open>generate_code_req\<close> (the first
  issuance and each rotation) resets it to 60; the interval \<open>update_timer\<close> has a period
  of one second and, while a code has been generated, a tick takes a positive countdown
  down by one and takes a countdown that has reached zero to 59 (60 is assigned and
  decremented in the same tick); before the first code has been generated a tick leaves the
  countdown as it is.
\<close>

theorem C8_countdown:
  "timeout script_init = 60
   \<and> timeout (generate_code_req s) = 60
   \<and> period Update_timer = 1000
   \<and> (Update_timer \<in> intervals s \<and> is_code_generated s \<and> 0 < timeout s
        \<longrightarrow> timeout (dispatch s (Tick Update_timer)) = timeout s - 1)
   \<and> (Update_timer \<in> intervals s \<and> is_code_generated s \<and> timeout s \<le> 0
        \<longrightarrow> timeout (dispatch s (Tick Update_timer)) = 59)
   \<and> (\<not> is_code_generated s \<longrightarrow> timeout (dispatch s (Tick Update_timer)) = timeout s)"
  by (simp add: script_init_def generate_code_req_def invoke_def dispatch_def flush_def
      invalidated_def update_timer_tick_def Let_def)

theorem C8_countdown_witness:
  "(Update_timer \<in> intervals (run [Generate_code_settled 0 (Inr ''4821'')])
    \<and> is_code_generated (run [Generate_code_settled 0 (Inr ''4821'')])
    \<and> 0 < timeout (run [Generate_code_settled 0 (Inr ''4821'')])
    \<and> timeout (dispatch (run [Generate_code_settled 0 (Inr ''4821'')]) (Tick Update_timer)) = 59)
   \<and> (Update_timer \<in> intervals
          (run (Generate_code_settled 0 (Inr ''4821'') # replicate 60 (Tick Update_timer)))
    \<and> is_code_generated
          (run (Generate_code_settled 0 (Inr ''4821'') # replicate 60 (Tick Update_timer)))
    \<and> timeout (run (Generate_code_settled 0 (Inr ''4821'') # replicate 60 (Tick Update_timer)))
          \<le> 0
    \<and> timeout (dispatch
          (run (Generate_code_settled 0 (Inr ''4821'') # replicate 60 (Tick Update_timer)))
          (Tick Update_timer)) = 59)
   \<and> (\<not> is_code_generated mounted \<and> timeout (dispatch mounted (Tick Update_timer)) = 60)"
proof -
  let ?a = "run [Generate_code_settled 0 (Inr ''4821'')]"
  let ?b = "run (Generate_code_settled 0 (Inr ''4821'') # replicate 60 (Tick Update_timer))"
  have a: "Update_timer \<in> intervals ?a \<and> is_code_generated ?a \<and> 0 < timeout ?a"
    by code_simp
  have a60: "timeout ?a = 60"
    by code_simp
  have b: "Update_timer \<in> intervals ?b \<and> is_code_generated ?b \<and> timeout ?b \<le> 0"
    by code_simp
  have c: "\<not> is_code_generated mounted"
    by code_simp
  have c60: "timeout mounted = 60"
    by code_simp
  from a a60 C8_countdown [of ?a]
  have "timeout (dispatch ?a (Tick Update_timer)) = 59"
    by simp
  moreover from b C8_countdown [of ?b]
  have "timeout (dispatch ?b (Tick Update_timer)) = 59"
    by simp
  moreover from c c60 C8_countdown [of mounted]
  have "timeout (dispatch mounted (Tick Update_timer)) = 60"
    by simp
  ultimately show ?thesis
    using a b c by simp
qed

subsection \<open>Helper lemmas\<close>

lemmas lm_defs = invoke_def answered_def goto_def clearInterval_def generate_code_req_def
  generate_code_resolved_def generate_code_rejected_def provision_code_tick_def
  provision_code_resolved_def provision_code_rejected_def update_timer_tick_def
  clearIntervalProcess_def reactive_def invalidated_def flush_def dispatch_def

lemma event_cases:
  obtains "e = Tick Generate_code_process" | "e = Tick Provision_code_process"
  | "e = Tick Update_timer" | i r where "e = Generate_code_settled i r"
  | i r where "e = Provision_code_settled i r" | "e = Destroy"
proof (cases e)
  case (Tick x)
  with that show ?thesis by (cases x) auto
qed (use that in auto)

lemma intervals_cleared [simp]:
  "A - {Generate_code_process} - {Provision_code_process} - {Update_timer} = {}"
proof -
  have "x = Generate_code_process \<or> x = Provision_code_process \<or> x = Update_timer" for x
    by (cases x) auto
  then show ?thesis by auto
qed

lemma run_snoc: "run (es @ [e]) = dispatch (run es) e"
  by (simp add: run_def)

lemma codes_inv_mounted: "codes_inv mounted"
  by (simp add: codes_inv_def mounted_def script_init_def lm_defs)

lemma codes_inv_dispatch: "codes_inv s \<Longrightarrow> codes_inv (dispatch s e)"
  by (cases e rule: event_cases)
    (auto simp: codes_inv_def lm_defs Let_def split: option.splits call.splits sum.splits)

lemma codes_inv_run: "codes_inv (run es)"
  by (induction es rule: rev_induct) (simp_all add: run_def codes_inv_mounted codes_inv_dispatch)

lemma nav_inv_mounted: "nav_inv mounted"
  by (simp add: nav_inv_def mounted_def script_init_def lm_defs)

lemma nav_inv_dispatch: "nav_inv s \<Longrightarrow> nav_inv (dispatch s e)"
  by (cases e rule: event_cases)
    (auto simp: nav_inv_def lm_defs Let_def split: option.splits call.splits sum.splits)

lemma nav_inv_run: "nav_inv (run es)"
  by (induction es rule: rev_induct) (simp_all add: run_def nav_inv_mounted nav_inv_dispatch)

text \<open>The log \<open>generated\<close> grows only when a \<^verbatim>\<open>generate_code\<close> call is answered with a code.\<close>

lemma generated_events:
  "c \<in> set (generated (run es)) \<Longrightarrow> \<exists>i. Generate_code_settled i (Inr c) \<in> set es"
proof (induction es arbitrary: c rule: rev_induct)
  case Nil
  then show ?case by (simp add: run_def mounted_def script_init_def lm_defs)
next
  case (snoc e es)
  show ?case
  proof (cases "c \<in> set (generated (run es))")
    case True
    with snoc.IH show ?thesis by auto
  next
    case False
    with snoc.prems show ?thesis
      unfolding run_snoc
      by (cases e rule: event_cases)
        (auto simp: lm_defs Let_def split: option.splits call.splits sum.splits if_splits)
  qed
qed

text \<open>Once every interval is cleared, no callback issues a call and none registers an interval.\<close>

lemma quiet_dispatch:
  "intervals s = {} \<Longrightarrow> intervals (dispatch s e) = {} \<and> invoked (dispatch s e) = invoked s"
  by (cases e rule: event_cases)
    (auto simp: lm_defs Let_def split: option.splits call.splits sum.splits)

lemma quiet_foldl:
  "intervals s = {} \<Longrightarrow>
     intervals (foldl dispatch s es) = {} \<and> invoked (foldl dispatch s es) = invoked s"
proof (induction es arbitrary: s)
  case Nil
  then show ?case by simp
next
  case (Cons e es)
  from quiet_dispatch [OF Cons.prems, of e] Cons.IH [of "dispatch s e"]
  show ?case by simp
qed

subsection \<open>No submission before the first code\<close>

text \<open>
  C10: \<^verbatim>\<open>submitCode\<close> is never invoked before \<^verbatim>\<open>generateCode\<close> has completed
  successfully. The flag \<open>is_code_generated\<close> is down when the screen is mounted; while it
  is down a poll tick issues no call; in every reachable state in which it is up, a
  \<^verbatim>\<open>generate_code\<close> call has been answered with the code that \<open>provision_code\<close>
  holds; and every code that was ever submitted is the code of such an answer, so the
  placeholder the variable starts with is never submitted.
\<close>

theorem C10_submit_after_generate:
  "\<not> is_code_generated mounted
   \<and> (\<not> is_code_generated s \<longrightarrow>
        invoked (dispatch s (Tick Provision_code_process)) = invoked s)
   \<and> (is_code_generated (run es) \<longrightarrow>
        (\<exists>i. Generate_code_settled i (Inr (provision_code (run es))) \<in> set es))
   \<and> (Provision_code c \<in> set (invoked (run es)) \<longrightarrow>
        (\<exists>i. Generate_code_settled i (Inr c) \<in> set es))"
proof (intro conjI impI)
  show "\<not> is_code_generated mounted"
    by (simp add: mounted_def script_init_def lm_defs)
next
  assume "\<not> is_code_generated s"
  then show "invoked (dispatch s (Tick Provision_code_process)) = invoked s"
    by (simp add: lm_defs)
next
  assume "is_code_generated (run es)"
  with codes_inv_run [of es] have "provision_code (run es) \<in> set (generated (run es))"
    by (auto simp: codes_inv_def)
  then show "\<exists>i. Generate_code_settled i (Inr (provision_code (run es))) \<in> set es"
    by (rule generated_events)
next
  assume "Provision_code c \<in> set (invoked (run es))"
  with codes_inv_run [of es] have "c \<in> set (generated (run es))"
    by (simp add: codes_inv_def)
  then show "\<exists>i. Generate_code_settled i (Inr c) \<in> set es"
    by (rule generated_events)
qed

theorem C10_submit_after_generate_witness:
  "\<not> is_code_generated mounted
   \<and> invoked (dispatch mounted (Tick Provision_code_process)) = invoked mounted
   \<and> is_code_generated
        (run [Generate_code_settled 0 (Inr ''4821''), Tick Provision_code_process])
   \<and> Provision_code ''4821''
        \<in> set (invoked (run [Generate_code_settled 0 (Inr ''4821''), Tick Provision_code_process]))
   \<and> (\<exists>i. Generate_code_settled i (Inr ''4821'')
          \<in> set [Generate_code_settled 0 (Inr ''4821''), Tick Provision_code_process])"
proof -
  let ?es = "[Generate_code_settled 0 (Inr ''4821''), Tick Provision_code_process]"
  have m: "\<not> is_code_generated mounted"
    by code_simp
  have g: "is_code_generated (run ?es)"
    by code_simp
  have p: "Provision_code ''4821'' \<in> set (invoked (run ?es))"
    by code_simp
  from m g p
    C10_submit_after_generate [where s = mounted and es = ?es and c = "''4821''"]
  show ?thesis
    by blast
qed

subsection \<open>Overlapping polls\<close>

text \<open>
  C5, as stated: a poll tick that fires while a previous \<^verbatim>\<open>submitCode\<close> call is
  outstanding is skipped, so two calls for the same code are never outstanding together.
  The handler of the poll interval tests \<open>is_code_generated\<close> and nothing else: two ticks
  with no answer in between leave two calls for the same code outstanding.
\<close>

theorem C5_two_outstanding_counterexample:
  "outstanding (run [Generate_code_settled 0 (Inr ''4821''), Tick Provision_code_process,
      Tick Provision_code_process])
     = [(1, Provision_code ''4821''), (2, Provision_code ''4821'')]"
  by code_simp

text \<open>
  C5, amended: the poll interval has a period of 20 seconds, and a poll tick is skipped only
  while no code has been generated yet. Once a code has been generated, every tick issues a
  new \<^verbatim>\<open>submitCode\<close> call for the current code, whatever calls are outstanding; the
  new call is added to them.
\<close>

theorem C5_tick_always_submits:
  "period Provision_code_process = 20000
   \<and> (Provision_code_process \<in> intervals s \<and> is_code_generated s \<longrightarrow>
        outstanding (dispatch s (Tick Provision_code_process))
          = outstanding s @ [(length (invoked s), Provision_code (provision_code s))])
   \<and> (\<not> is_code_generated s \<longrightarrow>
        outstanding (dispatch s (Tick Provision_code_process)) = outstanding s)"
  by (simp add: lm_defs)

theorem C5_tick_always_submits_witness:
  "Provision_code_process
     \<in> intervals (run [Generate_code_settled 0 (Inr ''4821''), Tick Provision_code_process])
   \<and> is_code_generated (run [Generate_code_settled 0 (Inr ''4821''), Tick Provision_code_process])
   \<and> outstanding (dispatch
        (run [Generate_code_settled 0 (Inr ''4821''), Tick Provision_code_process])
        (Tick Provision_code_process))
       = [(1, Provision_code ''4821''), (2, Provision_code ''4821'')]
   \<and> \<not> is_code_generated mounted
   \<and> outstanding (dispatch mounted (Tick Provision_code_process)) = [(0, Generate_code)]"
proof -
  let ?s = "run [Generate_code_settled 0 (Inr ''4821''), Tick Provision_code_process]"
  have h: "Provision_code_process \<in> intervals ?s \<and> is_code_generated ?s"
    by code_simp
  have v: "outstanding ?s = [(1, Provision_code ''4821'')] \<and> length (invoked ?s) = 2
      \<and> provision_code ?s = ''4821''"
    by code_simp
  have m: "\<not> is_code_generated mounted"
    by code_simp
  have w: "outstanding mounted = [(0, Generate_code)]"
    by code_simp
  from h v C5_tick_always_submits [of ?s]
  have "outstanding (dispatch ?s (Tick Provision_code_process))
      = [(1, Provision_code ''4821''), (2, Provision_code ''4821'')]"
    by simp
  moreover from m w C5_tick_always_submits [of mounted]
  have "outstanding (dispatch mounted (Tick Provision_code_process)) = [(0, Generate_code)]"
    by simp
  ultimately show ?thesis
    using h m by simp
qed

subsection \<open>An incorrect code\<close>

text \<open>
  C2, as stated: after a poll has been answered with \<^verbatim>\<open>success = false\<close>, further
  polling is suspended until a new code cycle begins. The answer lowers \<open>apiInProgress\<close>,
  which the poll handler does not read: the next tick of the poll interval submits the same
  code again, with no new code in between.
\<close>

theorem C2_polling_not_suspended_counterexample:
  "invoked (run [Generate_code_settled 0 (Inr ''4821''), Tick Provision_code_process,
      Provision_code_settled 1 (Inr False), Tick Provision_code_process])
     = [Generate_code, Provision_code ''4821'', Provision_code ''4821'']
   \<and> outstanding (run [Generate_code_settled 0 (Inr ''4821''), Tick Provision_code_process,
      Provision_code_settled 1 (Inr False), Tick Provision_code_process])
     = [(2, Provision_code ''4821'')]"
  by code_simp

text \<open>
  C2, amended: when a poll is answered with \<^verbatim>\<open>success = false\<close> and the flow has
  not failed already, the message becomes ``Incorrect code! Try again!'', no navigation
  request is made (the flow stays on the pairing screen), and every interval stays
  registered. Polling is not suspended: the next tick of the poll interval submits the
  current code again. Rotation continues: the next tick of the rotation interval, whose
  period is 60 seconds, issues a new \<^verbatim>\<open>generateCode\<close> call.
\<close>

theorem C2_incorrect_code:
  "map_of (outstanding s) i = Some (Provision_code c) \<and> \<not> is_error s \<longrightarrow>
     error_message (dispatch s (Provision_code_settled i (Inr False)))
       = ''Incorrect code! Try again!''
     \<and> navigations (dispatch s (Provision_code_settled i (Inr False))) = navigations s
     \<and> intervals (dispatch s (Provision_code_settled i (Inr False))) = intervals s
     \<and> (Provision_code_process \<in> intervals s \<and> is_code_generated s \<longrightarrow>
          invoked (dispatch (dispatch s (Provision_code_settled i (Inr False)))
                     (Tick Provision_code_process))
            = invoked s @ [Provision_code (provision_code s)])
     \<and> (Generate_code_process \<in> intervals s \<longrightarrow>
          period Generate_code_process = 60000
          \<and> invoked (dispatch (dispatch s (Provision_code_settled i (Inr False)))
                     (Tick Generate_code_process))
            = invoked s @ [Generate_code])"
  by (auto simp: lm_defs Let_def)

theorem C2_incorrect_code_witness:
  "map_of (outstanding (run [Generate_code_settled 0 (Inr ''4821''), Tick Provision_code_process])) 1
     = Some (Provision_code ''4821'')
   \<and> \<not> is_error (run [Generate_code_settled 0 (Inr ''4821''), Tick Provision_code_process])
   \<and> Provision_code_process
       \<in> intervals (run [Generate_code_settled 0 (Inr ''4821''), Tick Provision_code_process])
   \<and> Generate_code_process
       \<in> intervals (run [Generate_code_settled 0 (Inr ''4821''), Tick Provision_code_process])
   \<and> is_code_generated (run [Generate_code_settled 0 (Inr ''4821''), Tick Provision_code_process])
   \<and> error_message (dispatch
        (run [Generate_code_settled 0 (Inr ''4821''), Tick Provision_code_process])
        (Provision_code_settled 1 (Inr False))) = ''Incorrect code! Try again!''
   \<and> navigations (dispatch
        (run [Generate_code_settled 0 (Inr ''4821''), Tick Provision_code_process])
        (Provision_code_settled 1 (Inr False))) = []
   \<and> invoked (dispatch (dispatch
        (run [Generate_code_settled 0 (Inr ''4821''), Tick Provision_code_process])
        (Provision_code_settled 1 (Inr False))) (Tick Provision_code_process))
       = [Generate_code, Provision_code ''4821'', Provision_code ''4821'']
   \<and> invoked (dispatch (dispatch
        (run [Generate_code_settled 0 (Inr ''4821''), Tick Provision_code_process])
        (Provision_code_settled 1 (Inr False))) (Tick Generate_code_process))
       = [Generate_code, Provision_code ''4821'', Generate_code]"
proof -
  let ?s = "run [Generate_code_settled 0 (Inr ''4821''), Tick Provision_code_process]"
  have h: "map_of (outstanding ?s) 1 = Some (Provision_code ''4821'') \<and> \<not> is_error ?s"
    by code_simp
  have k: "Provision_code_process \<in> intervals ?s \<and> Generate_code_process \<in> intervals ?s
      \<and> is_code_generated ?s"
    by code_simp
  have v: "navigations ?s = [] \<and> invoked ?s = [Generate_code, Provision_code ''4821'']
      \<and> provision_code ?s = ''4821''"
    by code_simp
  from h k v C2_incorrect_code [of ?s 1 "''4821''"]
  show ?thesis
    by simp
qed

subsection \<open>Errors of the poll\<close>

text \<open>
  C7: an agent error of \<^verbatim>\<open>submitCode\<close> whose message, in lower case, contains
  ``parse response'' is transient: no navigation request is made, neither the error flag nor
  the message changes, and the intervals and the flag that gates the poll stay as they are,
  so polling continues. Any other agent error that arrives during polling (the screen is
  alive and no code has been confirmed) raises the error flag and sends the flow to the
  setup-failed screen with the message ``Something went wrong! Try again!''.
\<close>

theorem C7_poll_errors:
  "(map_of (outstanding s) i = Some (Provision_code c)
      \<and> includes_str (toLowerCase error) ''parse response'' \<longrightarrow>
        navigations (dispatch s (Provision_code_settled i (Inl error))) = navigations s
        \<and> is_error (dispatch s (Provision_code_settled i (Inl error))) = is_error s
        \<and> error_message (dispatch s (Provision_code_settled i (Inl error))) = error_message s
        \<and> intervals (dispatch s (Provision_code_settled i (Inl error))) = intervals s
        \<and> is_code_generated (dispatch s (Provision_code_settled i (Inl error)))
            = is_code_generated s)
   \<and> (map_of (outstanding (run es)) i = Some (Provision_code c)
      \<and> \<not> includes_str (toLowerCase error) ''parse response''
      \<and> \<not> destroyed (run es) \<and> \<not> is_code_provision (run es) \<longrightarrow>
        is_error (run (es @ [Provision_code_settled i (Inl error)]))
        \<and> navigations (run (es @ [Provision_code_settled i (Inl error)])) \<noteq> []
        \<and> last (navigations (run (es @ [Provision_code_settled i (Inl error)])))
            = Goto ''/setup-failed'' (Some ''Something went wrong! Try again!''))"
proof (intro conjI impI)
  assume "map_of (outstanding (run es)) i = Some (Provision_code c)
      \<and> \<not> includes_str (toLowerCase error) ''parse response''
      \<and> \<not> destroyed (run es) \<and> \<not> is_code_provision (run es)"
  with nav_inv_run [of es]
  have "is_error (dispatch (run es) (Provision_code_settled i (Inl error)))
        \<and> navigations (dispatch (run es) (Provision_code_settled i (Inl error))) \<noteq> []
        \<and> last (navigations (dispatch (run es) (Provision_code_settled i (Inl error))))
            = Goto ''/setup-failed'' (Some ''Something went wrong! Try again!'')"
    by (auto simp: nav_inv_def lm_defs Let_def)
  then show "is_error (run (es @ [Provision_code_settled i (Inl error)]))"
    and "navigations (run (es @ [Provision_code_settled i (Inl error)])) \<noteq> []"
    and "last (navigations (run (es @ [Provision_code_settled i (Inl error)])))
            = Goto ''/setup-failed'' (Some ''Something went wrong! Try again!'')"
    by (simp_all add: run_snoc)
qed (auto simp: lm_defs Let_def)

theorem C7_poll_errors_witness:
  "map_of (outstanding (run [Generate_code_settled 0 (Inr ''4821''), Tick Provision_code_process])) 1
     = Some (Provision_code ''4821'')
   \<and> includes_str (toLowerCase ''Failed to Parse Response: EOF'') ''parse response''
   \<and> navigations (dispatch
        (run [Generate_code_settled 0 (Inr ''4821''), Tick Provision_code_process])
        (Provision_code_settled 1 (Inl ''Failed to Parse Response: EOF''))) = []
   \<and> \<not> is_error (dispatch
        (run [Generate_code_settled 0 (Inr ''4821''), Tick Provision_code_process])
        (Provision_code_settled 1 (Inl ''Failed to Parse Response: EOF'')))
   \<and> \<not> includes_str (toLowerCase ''connection refused'') ''parse response''
   \<and> \<not> destroyed (run [Generate_code_settled 0 (Inr ''4821''), Tick Provision_code_process])
   \<and> \<not> is_code_provision (run [Generate_code_settled 0 (Inr ''4821''), Tick Provision_code_process])
   \<and> is_error (run ([Generate_code_settled 0 (Inr ''4821''), Tick Provision_code_process]
        @ [Provision_code_settled 1 (Inl ''connection refused'')]))
   \<and> last (navigations (run ([Generate_code_settled 0 (Inr ''4821''), Tick Provision_code_process]
        @ [Provision_code_settled 1 (Inl ''connection refused'')])))
       = Goto ''/setup-failed'' (Some ''Something went wrong! Try again!'')"
proof -
  let ?es = "[Generate_code_settled 0 (Inr ''4821''), Tick Provision_code_process]"
  have o: "map_of (outstanding (run ?es)) 1 = Some (Provision_code ''4821'')"
    by code_simp
  have p: "includes_str (toLowerCase ''Failed to Parse Response: EOF'') ''parse response''"
    by code_simp
  have q: "\<not> includes_str (toLowerCase ''connection refused'') ''parse response''"
    by code_simp
  have d: "\<not> destroyed (run ?es) \<and> \<not> is_code_provision (run ?es)"
    by code_simp
  have v: "navigations (run ?es) = [] \<and> \<not> is_error (run ?es)"
    by code_simp
  from o p v
    C7_poll_errors [where s = "run ?es" and i = 1 and c = "''4821''"
      and error = "''Failed to Parse Response: EOF''"]
  have a: "navigations (dispatch (run ?es)
        (Provision_code_settled 1 (Inl ''Failed to Parse Response: EOF''))) = []
      \<and> \<not> is_error (dispatch (run ?es)
        (Provision_code_settled 1 (Inl ''Failed to Parse Response: EOF'')))"
    by simp
  from o q d
    C7_poll_errors [where es = ?es and i = 1 and c = "''4821''"
      and error = "''connection refused''"]
  have b: "is_error (run (?es @ [Provision_code_settled 1 (Inl ''connection refused'')]))
      \<and> last (navigations (run (?es @ [Provision_code_settled 1 (Inl ''connection refused'')])))
          = Goto ''/setup-failed'' (Some ''Something went wrong! Try again!'')"
    by blast
  from o p q d a b show ?thesis
    by blast
qed

subsection \<open>A confirmed code\<close>

text \<open>
  C6, as stated: whenever \<^verbatim>\<open>submitCode\<close> is answered with \<^verbatim>\<open>success = true\<close>,
  the flow advances to the identity screen, and no code rotation occurs afterwards. Two
  runs show otherwise. In the first the user has left the pairing screen while the poll was
  outstanding: the answer confirms the code, but the reactive statement of the destroyed
  component does not run and no navigation is requested. In the second the rotation and the
  poll are both started at the 60-second mark; the poll is answered first and confirms the
  code, and the answer to the rotation that follows still replaces the code.
\<close>

theorem C6_confirmed_counterexample:
  "is_code_provision (run [Generate_code_settled 0 (Inr ''4821''), Tick Provision_code_process,
      Destroy, Provision_code_settled 1 (Inr True)])
   \<and> navigations (run [Generate_code_settled 0 (Inr ''4821''), Tick Provision_code_process,
      Destroy, Provision_code_settled 1 (Inr True)]) = []
   \<and> is_code_provision (run [Generate_code_settled 0 (Inr ''4821''), Tick Generate_code_process,
      Tick Provision_code_process, Provision_code_settled 2 (Inr True)])
   \<and> provision_code (run [Generate_code_settled 0 (Inr ''4821''), Tick Generate_code_process,
      Tick Provision_code_process, Provision_code_settled 2 (Inr True)]) = ''4821''
   \<and> provision_code (run [Generate_code_settled 0 (Inr ''4821''), Tick Generate_code_process,
      Tick Provision_code_process, Provision_code_settled 2 (Inr True),
      Generate_code_settled 1 (Inr ''9999'')]) = ''9999''"
  by code_simp

text \<open>
  C6, amended: whenever a \<^verbatim>\<open>submitCode\<close> call is answered with
  \<^verbatim>\<open>success = true\<close>, the code is confirmed and every interval of the pairing screen
  (rotation, polling, countdown) is cleared; whatever happens afterwards, no interval is
  registered again and no further agent call is issued, so no further rotation is started.
  If the screen is alive when the answer arrives, the latest navigation request is the one
  for the identity screen \<^verbatim>\<open>/configure-machine\<close>; if the screen has been torn down,
  no navigation is requested. A \<^verbatim>\<open>generateCode\<close> call that is outstanding can still
  be answered, also after the confirmation, and its code then replaces the current one.
\<close>

theorem C6_confirmed:
  "(map_of (outstanding (run es)) i = Some (Provision_code c) \<longrightarrow>
      is_code_provision (run (es @ [Provision_code_settled i (Inr True)]))
      \<and> intervals (run (es @ [Provision_code_settled i (Inr True)])) = {}
      \<and> intervals (run (es @ [Provision_code_settled i (Inr True)] @ es')) = {}
      \<and> invoked (run (es @ [Provision_code_settled i (Inr True)] @ es'))
          = invoked (run (es @ [Provision_code_settled i (Inr True)])))
   \<and> (map_of (outstanding (run es)) i = Some (Provision_code c) \<and> \<not> destroyed (run es) \<longrightarrow>
      navigations (run (es @ [Provision_code_settled i (Inr True)])) \<noteq> []
      \<and> last (navigations (run (es @ [Provision_code_settled i (Inr True)])))
          = Goto ''/configure-machine'' None)
   \<and> (map_of (outstanding (run es)) i = Some (Provision_code c) \<and> destroyed (run es) \<longrightarrow>
      navigations (run (es @ [Provision_code_settled i (Inr True)])) = navigations (run es))
   \<and> (map_of (outstanding s) j = Some Generate_code \<longrightarrow>
      provision_code (dispatch s (Generate_code_settled j (Inr code))) = code)"
proof (intro conjI impI)
  let ?s = "run es" and ?e = "Provision_code_settled i (Inr True)"
  have r: "run (es @ [?e]) = dispatch ?s ?e"
    by (rule run_snoc)
  have r': "run (es @ [?e] @ es') = foldl dispatch (dispatch ?s ?e) es'"
    by (simp add: run_def)
  {
    assume h: "map_of (outstanding ?s) i = Some (Provision_code c)"
    with nav_inv_run [of es]
    have a: "is_code_provision (dispatch ?s ?e) \<and> intervals (dispatch ?s ?e) = {}"
      by (auto simp: nav_inv_def lm_defs Let_def)
    from a show "is_code_provision (run (es @ [?e]))"
      unfolding r by simp
    from a show "intervals (run (es @ [?e])) = {}"
      unfolding r by simp
    from a quiet_foldl [of "dispatch ?s ?e" es']
    show "intervals (run (es @ [?e] @ es')) = {}"
      unfolding r' by simp
    from a quiet_foldl [of "dispatch ?s ?e" es']
    show "invoked (run (es @ [?e] @ es')) = invoked (run (es @ [?e]))"
      unfolding r r' by simp
  }
  {
    assume h: "map_of (outstanding ?s) i = Some (Provision_code c) \<and> \<not> destroyed ?s"
    with nav_inv_run [of es]
    have b: "navigations (dispatch ?s ?e) \<noteq> []
        \<and> last (navigations (dispatch ?s ?e)) = Goto ''/configure-machine'' None"
      by (auto simp: nav_inv_def lm_defs Let_def)
    from b show "navigations (run (es @ [?e])) \<noteq> []"
      unfolding r by simp
    from b show "last (navigations (run (es @ [?e]))) = Goto ''/configure-machine'' None"
      unfolding r by simp
  }
  {
    assume "map_of (outstanding ?s) i = Some (Provision_code c) \<and> destroyed ?s"
    then show "navigations (run (es @ [?e])) = navigations ?s"
      unfolding r by (auto simp: lm_defs Let_def)
  }
  {
    assume "map_of (outstanding s) j = Some Generate_code"
    then show "provision_code (dispatch s (Generate_code_settled j (Inr code))) = code"
      by (auto simp: lm_defs Let_def)
  }
qed

theorem C6_confirmed_witness:
  "map_of (outstanding (run [Generate_code_settled 0 (Inr ''4821''), Tick Provision_code_process])) 1
     = Some (Provision_code ''4821'')
   \<and> \<not> destroyed (run [Generate_code_settled 0 (Inr ''4821''), Tick Provision_code_process])
   \<and> intervals (run ([Generate_code_settled 0 (Inr ''4821''), Tick Provision_code_process]
        @ [Provision_code_settled 1 (Inr True)])) = {}
   \<and> last (navigations (run ([Generate_code_settled 0 (Inr ''4821''), Tick Provision_code_process]
        @ [Provision_code_settled 1 (Inr True)]))) = Goto ''/configure-machine'' None
   \<and> invoked (run ([Generate_code_settled 0 (Inr ''4821''), Tick Provision_code_process]
        @ [Provision_code_settled 1 (Inr True)]
        @ [Tick Generate_code_process, Tick Provision_code_process, Tick Update_timer]))
       = invoked (run ([Generate_code_settled 0 (Inr ''4821''), Tick Provision_code_process]
        @ [Provision_code_settled 1 (Inr True)]))
   \<and> map_of (outstanding
        (run [Generate_code_settled 0 (Inr ''4821''), Tick Provision_code_process, Destroy])) 1
     = Some (Provision_code ''4821'')
   \<and> destroyed (run [Generate_code_settled 0 (Inr ''4821''), Tick Provision_code_process, Destroy])
   \<and> navigations (run ([Generate_code_settled 0 (Inr ''4821''), Tick Provision_code_process, Destroy]
        @ [Provision_code_settled 1 (Inr True)])) = []
   \<and> map_of (outstanding (run [Generate_code_settled 0 (Inr ''4821''),
        Tick Generate_code_process, Tick Provision_code_process,
        Provision_code_settled 2 (Inr True)])) 1 = Some Generate_code
   \<and> provision_code (dispatch (run [Generate_code_settled 0 (Inr ''4821''),
        Tick Generate_code_process, Tick Provision_code_process,
        Provision_code_settled 2 (Inr True)]) (Generate_code_settled 1 (Inr ''9999''))) = ''9999''"
proof -
  let ?es = "[Generate_code_settled 0 (Inr ''4821''), Tick Provision_code_process]"
  let ?ds = "[Generate_code_settled 0 (Inr ''4821''), Tick Provision_code_process, Destroy]"
  let ?s = "run [Generate_code_settled 0 (Inr ''4821''), Tick Generate_code_process,
        Tick Provision_code_process, Provision_code_settled 2 (Inr True)]"
  have h: "map_of (outstanding (run ?es)) 1 = Some (Provision_code ''4821'')
      \<and> \<not> destroyed (run ?es)"
    by code_simp
  have d: "map_of (outstanding (run ?ds)) 1 = Some (Provision_code ''4821'')
      \<and> destroyed (run ?ds)"
    by code_simp
  have n: "navigations (run ?ds) = []"
    by code_simp
  have g: "map_of (outstanding ?s) 1 = Some Generate_code"
    by code_simp
  from h
    C6_confirmed [where es = ?es and i = 1 and c = "''4821''"
      and es' = "[Tick Generate_code_process, Tick Provision_code_process, Tick Update_timer]"]
  have a: "intervals (run (?es @ [Provision_code_settled 1 (Inr True)])) = {}
      \<and> last (navigations (run (?es @ [Provision_code_settled 1 (Inr True)])))
          = Goto ''/configure-machine'' None
      \<and> invoked (run (?es @ [Provision_code_settled 1 (Inr True)]
          @ [Tick Generate_code_process, Tick Provision_code_process, Tick Update_timer]))
        = invoked (run (?es @ [Provision_code_settled 1 (Inr True)]))"
    by blast
  from d n C6_confirmed [where es = ?ds and i = 1 and c = "''4821''"]
  have b: "navigations (run (?ds @ [Provision_code_settled 1 (Inr True)])) = []"
    by simp
  from g C6_confirmed [where s = ?s and j = 1 and code = "''9999''"]
  have c: "provision_code (dispatch ?s (Generate_code_settled 1 (Inr ''9999''))) = ''9999''"
    by blast
  from h d g a b c show ?thesis
    by blast
qed

section \<open>Properties of the identity screen\<close>

lemmas cm_defs = cm_goto_def race_then_def race_catch_def settle_race_def promise_race_def

lemma cm_inv_init: "cm_inv cm_init"
  by (simp add: cm_inv_def cm_init_def)

lemma cm_inv_step: "cm_inv s \<Longrightarrow> cm_inv (cm_step s e)"
  by (cases e)
    (auto simp: cm_inv_def cm_defs Let_def split: option.splits promise.splits sum.splits)

lemma cm_inv_foldl: "cm_inv s \<Longrightarrow> cm_inv (foldl cm_step s es)"
  by (induction es arbitrary: s) (simp_all add: cm_inv_step)

lemma cm_inv_run: "cm_inv (cm_run es)"
  by (simp add: cm_run_def cm_inv_foldl cm_inv_init)

lemma fulfilled_step:
  "cm_inv s \<Longrightarrow> race s = Some (Fulfilled v) \<Longrightarrow> race (cm_step s e) = Some (Fulfilled v)"
  by (cases e)
    (auto simp: cm_inv_def cm_defs Let_def split: option.splits promise.splits sum.splits)

lemma fulfilled_foldl:
  "cm_inv s \<Longrightarrow> race s = Some (Fulfilled v) \<Longrightarrow> race (foldl cm_step s es) = Some (Fulfilled v)"
  by (induction es arbitrary: s) (simp_all add: cm_inv_step fulfilled_step)

lemma cm_run_append: "cm_run (es @ es') = foldl cm_step (cm_run es) es'"
  by (simp add: cm_run_def)

subsection \<open>The three outcomes\<close>

text \<open>
  What the screen does for every answer of \<^verbatim>\<open>get_machine_id\<close>, at every time and
  for either order at the millisecond of a timer. Exactly one navigation request is made.
  If the answer is handled before the deadline timer fires, a success leads to the success
  screen with the resolved id in the store, and a failure whose error is not the string
  \<^verbatim>\<open>'Timeout'\<close> leads to the setup-failed screen with an error message. If the deadline
  timer fires first, or the call is never answered, the request is the one for the
  timed-out screen.
\<close>

lemma identity_outcomes:
  "length (cm_navigations (cm_run (timeline b a))) = 1
   \<and> (answer_precedes b t 15000 \<and> error \<noteq> ''Timeout'' \<longrightarrow>
        cm_navigations (cm_run (timeline b (Some (t, Inl error))))
          = [Goto ''/setup-failed'' (Some ''Fetching machine data failed, Please try again'')])
   \<and> (\<not> answer_precedes b t 15000 \<longrightarrow>
        cm_navigations (cm_run (timeline b (Some (t, r)))) = [Goto ''/timeout-service'' None])
   \<and> cm_navigations (cm_run (timeline b None)) = [Goto ''/timeout-service'' None]
   \<and> (answer_precedes b t 15000 \<longrightarrow>
        cm_navigations (cm_run (timeline b (Some (t, Inr resolved))))
          = [Goto ''/setup-success'' None]
        \<and> data_id (machineInfo (cm_run (timeline b (Some (t, Inr resolved))))) = Some resolved)"
  by (auto simp: cm_run_def timeline_def answer_precedes_def cm_init_def cm_defs
      split: sum.splits option.splits)

text \<open>
  C1 requires that a failure of \<^verbatim>\<open>machineId\<close> before the deadline gives Failed and
  the setup-failed screen, and that only the deadline gives Timeout. The handler of the
  race tells the two apart by comparing the rejection value with the string
  \<^verbatim>\<open>'Timeout'\<close>, the value its own timer rejects with. A call that fails one second
  after the screen was entered, well before the deadline, with an error that is this very
  string is answered before both timers, and the screen requests the timed-out screen. The
  same failure with any other error text, here ``agent not running'', requests the
  setup-failed screen.
\<close>

theorem C1_failure_routed_as_timeout:
  "timeline answer_first (Some (1000, Inl ''Timeout''))
     = [Machine_id_settled (Inl ''Timeout''), Race_delay_elapsed, Deadline_elapsed]
   \<and> cm_navigations
        (cm_run [Machine_id_settled (Inl ''Timeout''), Race_delay_elapsed, Deadline_elapsed])
       = [Goto ''/timeout-service'' None]
   \<and> cm_navigations
        (cm_run [Machine_id_settled (Inl ''agent not running''), Race_delay_elapsed,
           Deadline_elapsed])
       = [Goto ''/setup-failed'' (Some ''Fetching machine data failed, Please try again'')]"
  by (simp add: cm_run_def timeline_def answer_precedes_def cm_init_def cm_defs)

subsection \<open>The deadline timer after a success\<close>

text \<open>
  C3, as stated: the deadline timer is cancelled the instant the call resolves. The script
  keeps no handle of the timer and never clears it: after the call has resolved and the race
  is fulfilled the timer is still pending, and when it fires it rejects \<open>checkTimeout\<close>.
\<close>

theorem C3_deadline_not_cancelled_counterexample:
  "deadline_timer (cm_run [Race_delay_elapsed, Machine_id_settled (Inr ''dev-123'')])
   \<and> race (cm_run [Race_delay_elapsed, Machine_id_settled (Inr ''dev-123'')])
       = Some (Fulfilled ''dev-123'')
   \<and> checkTimeout
        (cm_run [Race_delay_elapsed, Machine_id_settled (Inr ''dev-123''), Deadline_elapsed])
       = Rejected ''Timeout''"
  by (simp add: cm_run_def cm_init_def cm_defs)

text \<open>
  C3, amended: the deadline timer is not cancelled when the call resolves (the answer of
  the call leaves a pending timer pending); its late firing is ignored by the race, which
  has settled. In every interleaving of the three events at most one navigation request is
  made, and once the race is fulfilled the request is, and stays whatever happens next, the
  one for the success screen: Success and Timeout exclude each other.
\<close>

theorem C3_success_excludes_timeout:
  "length (cm_navigations (cm_run es)) \<le> 1
   \<and> (deadline_timer s \<longrightarrow> deadline_timer (cm_step s (Machine_id_settled r)))
   \<and> (race (cm_run es) = Some (Fulfilled v) \<longrightarrow>
        cm_navigations (cm_run (es @ es')) = [Goto ''/setup-success'' None])"
proof (intro conjI impI)
  from cm_inv_run [of es] show "length (cm_navigations (cm_run es)) \<le> 1"
    by (auto simp: cm_inv_def split: option.splits promise.splits)
next
  assume "deadline_timer s"
  then show "deadline_timer (cm_step s (Machine_id_settled r))"
    by (auto simp: cm_defs split: option.splits promise.splits sum.splits)
next
  assume f: "race (cm_run es) = Some (Fulfilled v)"
  have "race (cm_run (es @ es')) = Some (Fulfilled v)"
    unfolding cm_run_append using cm_inv_run f by (rule fulfilled_foldl)
  with cm_inv_run [of "es @ es'"]
  show "cm_navigations (cm_run (es @ es')) = [Goto ''/setup-success'' None]"
    by (simp add: cm_inv_def)
qed

theorem C3_success_excludes_timeout_witness:
  "deadline_timer cm_init
   \<and> deadline_timer (cm_step cm_init (Machine_id_settled (Inr ''dev-123'')))
   \<and> race (cm_run [Race_delay_elapsed, Machine_id_settled (Inr ''dev-123'')])
       = Some (Fulfilled ''dev-123'')
   \<and> cm_navigations
        (cm_run ([Race_delay_elapsed, Machine_id_settled (Inr ''dev-123'')] @ [Deadline_elapsed]))
       = [Goto ''/setup-success'' None]"
proof -
  have t: "deadline_timer cm_init"
    by (simp add: cm_init_def)
  have f: "race (cm_run [Race_delay_elapsed, Machine_id_settled (Inr ''dev-123'')])
      = Some (Fulfilled ''dev-123'')"
    by (simp add: cm_run_def cm_init_def cm_defs)
  from t f
    C3_success_excludes_timeout [where s = cm_init and r = "Inr ''dev-123''"
      and es = "[Race_delay_elapsed, Machine_id_settled (Inr ''dev-123'')]"
      and v = "''dev-123''" and es' = "[Deadline_elapsed]"]
  show ?thesis
    by blast
qed

section \<open>Properties of the connectivity screen\<close>

text \<open>
  C9, as stated: an agent error of \<^verbatim>\<open>pingStatus\<close> routes the flow to the
  no-connectivity screen. The \<^verbatim>\<open>catch\<close> branch of the handler requests the
  setup-failed screen with the error instead.
\<close>

theorem C9_agent_error_counterexample:
  "ci_navigations (ci_run [Ci_timer_elapsed, Ci_ping_settled (Inl ''agent unreachable'')])
     = [Goto ''/setup-failed'' (Some ''agent unreachable'')]
   \<and> Goto ''/no-internet'' None
       \<notin> set (ci_navigations
                 (ci_run [Ci_timer_elapsed, Ci_ping_settled (Inl ''agent unreachable'')]))"
  by (simp add: ci_run_def ci_init_def ci_goto_def check_ping_status_def)

text \<open>
  C9, amended: the one-shot check makes one navigation request. It is for the pairing
  screen if and only if the call succeeds with the status code \<^verbatim>\<open>'success'\<close>; a
  response with any other code routes to the no-connectivity screen; an agent error routes
  to the setup-failed screen, carrying the error.
\<close>

theorem C9_connectivity_routing:
  "ci_navigations (ci_run [Ci_timer_elapsed, Ci_ping_settled r]) =
     [case r of
        Inr code \<Rightarrow>
          if code = ''success'' then Goto ''/link-machine'' None else Goto ''/no-internet'' None
      | Inl error \<Rightarrow> Goto ''/setup-failed'' (Some error)]
   \<and> (Goto ''/link-machine'' None \<in> set (ci_navigations (ci_run [Ci_timer_elapsed, Ci_ping_settled r]))
        \<longleftrightarrow> r = Inr ''success'')"
  by (simp add: ci_run_def ci_init_def ci_goto_def check_ping_status_def split: sum.splits)

theorem C9_connectivity_routing_witness:
  "ci_navigations (ci_run [Ci_timer_elapsed, Ci_ping_settled (Inr ''success'')])
     = [Goto ''/link-machine'' None]
   \<and> ci_navigations (ci_run [Ci_timer_elapsed, Ci_ping_settled (Inr ''offline'')])
     = [Goto ''/no-internet'' None]
   \<and> ci_navigations (ci_run [Ci_timer_elapsed, Ci_ping_settled (Inl ''agent unreachable'')])
     = [Goto ''/setup-failed'' (Some ''agent unreachable'')]"
  using C9_connectivity_routing [of "Inr ''success''"]
    C9_connectivity_routing [of "Inr ''offline''"]
    C9_connectivity_routing [of "Inl ''agent unreachable''"]
  by simp

section \<open>Properties of the machine status screen\<close>

lemmas mi_defs = mi_invoke_def mi_answered_def get_machine_data_def get_machine_data_resolved_def
  check_active_status_def check_active_status_settled_def set_machineInfo_def close_loading_def
  mi_flush_def mi_dispatch_def check_ping_status_def

lemma mi_event_cases:
  obtains "e = Mi_tick Check_active_status_interval" | "e = Mi_tick Get_machine_data_interval"
  | "e = Mi_loading_elapsed" | i r where "e = Mi_ping_settled i r"
  | i r where "e = Mi_info_settled i r" | "e = Mi_destroy"
proof (cases e)
  case (Mi_tick x)
  with that show ?thesis by (cases x) auto
qed (use that in auto)

lemma mi_intervals_dispatch: "mi_intervals (mi_dispatch s e) = mi_intervals s"
  by (cases e rule: mi_event_cases)
    (auto simp: mi_defs Let_def split: option.splits mi_call.splits sum.splits)

lemma mi_intervals_foldl: "mi_intervals (foldl mi_dispatch s es) = mi_intervals s"
  by (induction es arbitrary: s) (simp_all add: mi_intervals_dispatch)

text \<open>
  C4 requires that the teardown of the screen cancels the health check and the metadata
  refresh, and that neither changes any state afterwards. The screen does not do that.
  Whatever events it has seen, a teardown included, both intervals are still registered.
  After a teardown the health interval and the metadata interval still fire and each issues
  its agent call, and the answer to the health check still changes \<open>is_active\<close>.
\<close>

theorem C4_intervals_survive_teardown:
  "mi_intervals (mi_run store es) = {Check_active_status_interval, Get_machine_data_interval}
   \<and> mi_destroyed (mi_run (empty_store\<lparr> data_id := Some ''dev-123'' \<rparr>) [Mi_destroy])
   \<and> mi_invoked (mi_run (empty_store\<lparr> data_id := Some ''dev-123'' \<rparr>) [Mi_destroy])
       = [Get_ping_status, Get_machine_info_name]
   \<and> mi_invoked (mi_run (empty_store\<lparr> data_id := Some ''dev-123'' \<rparr>)
        [Mi_destroy, Mi_tick Check_active_status_interval, Mi_tick Get_machine_data_interval])
       = [Get_ping_status, Get_machine_info_name, Get_ping_status, Get_machine_info_name]
   \<and> \<not> is_active (mi_run (empty_store\<lparr> data_id := Some ''dev-123'' \<rparr>) [Mi_destroy])
   \<and> is_active (mi_run (empty_store\<lparr> data_id := Some ''dev-123'' \<rparr>)
        [Mi_destroy, Mi_tick Check_active_status_interval, Mi_ping_settled 2 (Inr ''success'')])"
proof -
  let ?store = "empty_store\<lparr> data_id := Some ''dev-123'' \<rparr>"
  have "mi_intervals (mi_run store es) = {Check_active_status_interval, Get_machine_data_interval}"
    by (simp add: mi_run_def mi_intervals_foldl mi_mounted_def mi_script_init_def mi_defs)
  moreover have "mi_destroyed (mi_run ?store [Mi_destroy])"
    by code_simp
  moreover have "mi_invoked (mi_run ?store [Mi_destroy]) = [Get_ping_status, Get_machine_info_name]"
    by code_simp
  moreover have "mi_invoked (mi_run ?store
        [Mi_destroy, Mi_tick Check_active_status_interval, Mi_tick Get_machine_data_interval])
       = [Get_ping_status, Get_machine_info_name, Get_ping_status, Get_machine_info_name]"
    by code_simp
  moreover have "\<not> is_active (mi_run ?store [Mi_destroy])"
    by code_simp
  moreover have "is_active (mi_run ?store
        [Mi_destroy, Mi_tick Check_active_status_interval, Mi_ping_settled 2 (Inr ''success'')])"
    by code_simp
  ultimately show ?thesis
    by blast
qed

end
